theory Spec2Isabelle
  imports Main "HOL-Library.Char_ord" "HOL-Library.List_Lexorder"
begin

section \<open>The store\<close>

text \<open>
  The program (src/app.py, class GestionTurnos) keeps three tables in an SQLite file.
  A table is the list of its rows in rowid order. The rows carry the columns that the
  statements of the methods name: \<^verbatim>\<open>p.id, p.nombre, p.apellido, dni\<close> for pacientes,
  \<^verbatim>\<open>m.id, m.nombre, m.apellido, m.especialidad\<close> for medicos, and
  \<^verbatim>\<open>id, paciente_id, medico_id, fecha_hora, duracion, estado, motivo_consulta,
  observaciones\<close> for turnos. A column that may hold NULL is an option.

  The tables that crear\_tablas declares do not have these columns (its table turnos has
  id\_turno, fecha, horario, id\_paciente, id\_medico and id\_consultorio), and its first
  statement is refused by sqlite3 (several statements in one execute), so on a new file
  it creates no table at all. The type db describes a database file that has the tables
  the statements of the methods name; the type archivo below adds the file without them.

  The INSERT of crear\_turno names neither estado nor observaciones, so a new row takes
  in both columns the default that the table turnos of the file declares. Nothing in the
  source fixes these defaults: they are part of the store (None when the table declares
  no default, which SQL reads as NULL).
\<close>

record paciente =
  p_id :: int
  p_nombre :: string
  p_apellido :: string
  p_dni :: string

record medico =
  m_id :: int
  m_nombre :: string
  m_apellido :: string
  m_especialidad :: string

record turno =
  t_id :: int
  paciente_id :: int
  medico_id :: int
  fecha_hora :: string
  duracion :: int
  estado :: "string option"
  motivo_consulta :: "string option"
  observaciones :: "string option"

record db =
  pacientes :: "paciente list"
  medicos :: "medico list"
  turnos :: "turno list"
  estado_defecto :: "string option"
  observaciones_defecto :: "string option"

text \<open>
  A method either returns a value or lets an exception escape. The handlers of the
  methods catch \<^verbatim>\<open>sqlite3.Error\<close>; binding a Python int outside the signed 64-bit
  range to a statement raises \<^verbatim>\<open>OverflowError\<close>, which those handlers do not catch.
\<close>

datatype 'a outcome = Returns 'a | Raises_OverflowError

definition int64 :: "int \<Rightarrow> bool" where
  "int64 i \<longleftrightarrow> - (2 ^ 63) \<le> i \<and> i < 2 ^ 63"

section \<open>actualizar\_estado\_turno\<close>

definition estados_validos :: "string list" where
  "estados_validos = [''pendiente'', ''confirmado'', ''cancelado'', ''completado'']"

text \<open>
  \<^verbatim>\<open>if observaciones:\<close> is false for None and for the empty string. The two UPDATE
  statements differ only in whether they assign the column observaciones.
\<close>

definition truthy :: "string option \<Rightarrow> bool" where
  "truthy s = (case s of None \<Rightarrow> False | Some v \<Rightarrow> v \<noteq> [])"

definition update_turno :: "string \<Rightarrow> string option \<Rightarrow> turno \<Rightarrow> turno" where
  "update_turno nuevo_estado obs t =
     (if truthy obs then t\<lparr>estado := Some nuevo_estado, observaciones := obs\<rparr>
      else t\<lparr>estado := Some nuevo_estado\<rparr>)"

definition rowcount :: "int \<Rightarrow> turno list \<Rightarrow> nat" where
  "rowcount turno_id ts = length (filter (\<lambda>t. t_id t = turno_id) ts)"

definition actualizar_estado_turno ::
  "db \<Rightarrow> int \<Rightarrow> string \<Rightarrow> string option \<Rightarrow> bool outcome \<times> db" where
  "actualizar_estado_turno d turno_id nuevo_estado obs =
     (if nuevo_estado \<notin> set estados_validos then (Returns False, d)
      else if \<not> int64 turno_id then (Raises_OverflowError, d)
      else (Returns (0 < rowcount turno_id (turnos d)),
            d\<lparr>turnos := map (\<lambda>t. if t_id t = turno_id
                                   then update_turno nuevo_estado obs t else t) (turnos d)\<rparr>))"

section \<open>Timestamps\<close>

text \<open>
  The column fecha\_hora holds the text the caller passed to crear\_turno. A text is a list
  of code points below 256. The program reads a timestamp text in two ways:
  \<^item> Python's \<^verbatim>\<open>datetime.strptime(fecha_hora, '%Y-%m-%d %H:%M')\<close>, whose pattern is
    \<^verbatim>\<open>\d\d\d\d-(1[0-2]|0[1-9]|[1-9])-(3[0-1]|[1-2]\d|0[1-9]|[1-9]| [1-9])\s+(2[0-3]|[0-1]\d|\d):([0-5]\d|\d)\<close>
    followed by the check that nothing of the text is left over and that the date exists;
  \<^item> SQLite's \<^verbatim>\<open>datetime(fecha_hora)\<close>, which reads only two-digit months, days, hours
    and minutes and yields NULL otherwise.
  An instant is the number of minutes since 0001-01-01 00:00 (the program never sets
  seconds). The calendar functions are those of CPython's datetime module.
\<close>

definition is_digit :: "char \<Rightarrow> bool" where
  "is_digit c \<longleftrightarrow> 48 \<le> (of_char c :: nat) \<and> (of_char c :: nat) \<le> 57"

definition py_space :: "char \<Rightarrow> bool" where
  "py_space c \<longleftrightarrow> (of_char c :: nat) \<in> set [9, 10, 11, 12, 13, 28, 29, 30, 31, 32, 133, 160]"

definition sql_space :: "char \<Rightarrow> bool" where
  "sql_space c \<longleftrightarrow> (of_char c :: nat) \<in> set [9, 10, 11, 12, 13, 32]"

definition num :: "string \<Rightarrow> int" where
  "num s = foldl (\<lambda>a c. 10 * a + (int (of_char c) - 48)) 0 s"

definition is_leap :: "int \<Rightarrow> bool" where
  "is_leap y \<longleftrightarrow> y mod 4 = 0 \<and> (y mod 100 \<noteq> 0 \<or> y mod 400 = 0)"

definition days_before_year :: "int \<Rightarrow> int" where
  "days_before_year y = (y - 1) * 365 + (y - 1) div 4 - (y - 1) div 100 + (y - 1) div 400"

definition days_in_month :: "int \<Rightarrow> int \<Rightarrow> int" where
  "days_in_month y m =
     (if m = 2 then (if is_leap y then 29 else 28)
      else if m = 4 \<or> m = 6 \<or> m = 9 \<or> m = 11 then 30 else 31)"

definition days_before_month :: "int \<Rightarrow> int \<Rightarrow> int" where
  "days_before_month y m =
     [0, 31, 59, 90, 120, 151, 181, 212, 243, 273, 304, 334] ! nat (m - 1)
       + (if 2 < m \<and> is_leap y then 1 else 0)"

definition ymd2ord :: "int \<Rightarrow> int \<Rightarrow> int \<Rightarrow> int" where
  "ymd2ord y m d = days_before_year y + days_before_month y m + d"

definition minutos :: "int \<Rightarrow> int \<Rightarrow> int \<Rightarrow> int \<Rightarrow> int \<Rightarrow> int" where
  "minutos y m d hh mm = (ymd2ord y m d - 1) * 1440 + hh * 60 + mm"

text \<open>
  The fields of a text, cut at the separators of the pattern: year (four characters),
  month, day (with the blank of the alternative \<^verbatim>\<open>' [1-9]'\<close> when the day starts with
  one), the blanks between date and time, hour and minute. None when a separator is
  missing or something is left over after the minute.
\<close>

definition campos :: "string \<Rightarrow> (string \<times> string \<times> string \<times> string \<times> string \<times> string) option" where
  "campos s =
     (let anio = take 4 s; r1 = drop 4 s in
      if r1 = [] \<or> hd r1 \<noteq> CHR ''-'' then None
      else let r2 = tl r1; mes = takeWhile is_digit r2; r3 = dropWhile is_digit r2 in
      if r3 = [] \<or> hd r3 \<noteq> CHR ''-'' then None
      else let r4 = tl r3;
               dia = (if r4 \<noteq> [] \<and> hd r4 = CHR '' '' then CHR '' '' # takeWhile is_digit (tl r4)
                      else takeWhile is_digit r4);
               r5 = drop (length dia) r4;
               blancos = takeWhile py_space r5; r6 = dropWhile py_space r5;
               hora = takeWhile is_digit r6; r7 = dropWhile is_digit r6 in
      if r7 = [] \<or> hd r7 \<noteq> CHR '':'' then None
      else let r8 = tl r7; minuto = takeWhile is_digit r8 in
      if dropWhile is_digit r8 \<noteq> [] then None
      else Some (anio, mes, dia, blancos, hora, minuto))"

definition digitos :: "string \<Rightarrow> bool" where
  "digitos s \<longleftrightarrow> list_all is_digit s"

definition dia_num :: "string \<Rightarrow> int" where
  "dia_num dia = (if dia \<noteq> [] \<and> hd dia = CHR '' '' then num (tl dia) else num dia)"

text \<open>The shapes the pattern of strptime accepts, field by field.\<close>

definition forma_py :: "string \<times> string \<times> string \<times> string \<times> string \<times> string \<Rightarrow> bool" where
  "forma_py f =
     (case f of (anio, mes, dia, blancos, hora, minuto) \<Rightarrow>
        length anio = 4 \<and> digitos anio
      \<and> (length mes = 1 \<or> length mes = 2) \<and> 1 \<le> num mes \<and> num mes \<le> 12
      \<and> (if dia \<noteq> [] \<and> hd dia = CHR '' '' then length dia = 2 \<and> 1 \<le> num (tl dia)
          else (length dia = 1 \<or> length dia = 2) \<and> 1 \<le> num dia \<and> num dia \<le> 31)
      \<and> blancos \<noteq> []
      \<and> (length hora = 1 \<or> length hora = 2) \<and> num hora \<le> 23
      \<and> (length minuto = 1 \<or> length minuto = 2) \<and> num minuto \<le> 59)"

text \<open>
  strptime: None stands for the ValueError it raises (no match, text left over, year 0,
  or a day the month does not have).
\<close>

definition py_strptime :: "string \<Rightarrow> int option" where
  "py_strptime s =
     (case campos s of
        None \<Rightarrow> None
      | Some f \<Rightarrow>
          (case f of (anio, mes, dia, blancos, hora, minuto) \<Rightarrow>
             if forma_py f \<and> 1 \<le> num anio \<and> dia_num dia \<le> days_in_month (num anio) (num mes)
             then Some (minutos (num anio) (num mes) (dia_num dia) (num hora) (num minuto))
             else None))"

text \<open>
  The shape SQLite's date and time reader needs, on a text that strptime accepts:
  two digits in every field after the year and only the blanks SQLite skips.
\<close>

definition forma_sql :: "string \<times> string \<times> string \<times> string \<times> string \<times> string \<Rightarrow> bool" where
  "forma_sql f =
     (case f of (anio, mes, dia, blancos, hora, minuto) \<Rightarrow>
        length mes = 2 \<and> length dia = 2 \<and> digitos dia \<and> list_all sql_space blancos
      \<and> length hora = 2 \<and> length minuto = 2)"

text \<open>
  \<^verbatim>\<open>datetime(X)\<close> of SQLite for a text X that strptime accepts, which are the texts
  crear\_turno stores; None is NULL. SQLite yields the text of the instant, and texts of
  instants compare as the instants do, so the value is kept as the instant. (SQLite
  reads further forms, such as times with seconds and Julian day numbers, that strptime
  rejects; the model does not describe them.)
\<close>

definition sql_datetime :: "string \<Rightarrow> int option" where
  "sql_datetime s =
     (case campos s of
        None \<Rightarrow> None
      | Some f \<Rightarrow> if forma_sql f then py_strptime s else None)"

definition minuto_max :: int where
  "minuto_max = 5258964959"

definition minuto_1000 :: int where
  "minuto_1000 = 525422880"

text \<open>
  \<^verbatim>\<open>dt + timedelta(minutes=duracion)\<close>: None stands for the OverflowError raised when
  the result leaves the years 1 to 9999 (minute\_max is 9999-12-31 23:59).
\<close>

definition py_sumar :: "int \<Rightarrow> int \<Rightarrow> int option" where
  "py_sumar dt dur = (if 0 \<le> dt + dur \<and> dt + dur \<le> minuto_max then Some (dt + dur) else None)"

text \<open>
  \<^verbatim>\<open>datetime(?)\<close> applied to \<^verbatim>\<open>dt.strftime('%Y-%m-%d %H:%M')\<close>. CPython on glibc prints
  a year below 1000 without leading zeros, a text SQLite does not read (NULL);
  minuto\_1000 is 1000-01-01 00:00.
\<close>

definition sql_param :: "int \<Rightarrow> int option" where
  "sql_param dt = (if minuto_1000 \<le> dt then Some dt else None)"

text \<open>
  \<^verbatim>\<open>datetime(fecha_hora, '+' || duracion || ' minutes')\<close>: NULL when the text is not read,
  when duracion is negative (the modifier \<^verbatim>\<open>'+-30 minutes'\<close> is not one SQLite knows) and
  when the result is past 9999-12-31 23:59.
\<close>

definition sql_datetime_mas :: "string \<Rightarrow> int \<Rightarrow> int option" where
  "sql_datetime_mas s dur =
     (case sql_datetime s of
        None \<Rightarrow> None
      | Some n \<Rightarrow> if dur < 0 \<or> minuto_max < n + dur then None else Some (n + dur))"

section \<open>Three-valued conditions of SQL\<close>

text \<open>A condition is true, false or NULL (None); a row is selected when it is true.\<close>

definition sql_and :: "bool option \<Rightarrow> bool option \<Rightarrow> bool option" where
  "sql_and a b =
     (if a = Some False \<or> b = Some False then Some False
      else if a = Some True \<and> b = Some True then Some True else None)"

definition sql_or :: "bool option \<Rightarrow> bool option \<Rightarrow> bool option" where
  "sql_or a b =
     (if a = Some True \<or> b = Some True then Some True
      else if a = Some False \<and> b = Some False then Some False else None)"

definition sql_lt :: "int option \<Rightarrow> int option \<Rightarrow> bool option" where
  "sql_lt a b = (case a of None \<Rightarrow> None | Some x \<Rightarrow> (case b of None \<Rightarrow> None | Some y \<Rightarrow> Some (x < y)))"

definition sql_ge :: "int option \<Rightarrow> int option \<Rightarrow> bool option" where
  "sql_ge a b = (case a of None \<Rightarrow> None | Some x \<Rightarrow> (case b of None \<Rightarrow> None | Some y \<Rightarrow> Some (y \<le> x)))"

definition sql_in :: "string option \<Rightarrow> string list \<Rightarrow> bool option" where
  "sql_in a xs = (case a of None \<Rightarrow> None | Some x \<Rightarrow> Some (x \<in> set xs))"

section \<open>verificar\_disponibilidad and crear\_turno\<close>

text \<open>
  The WHERE clause of the SELECT COUNT of verificar\_disponibilidad for one row; fin and
  ini are \<^verbatim>\<open>datetime(?)\<close> of the proposed end and start.
\<close>

definition where_disponibilidad :: "int \<Rightarrow> int option \<Rightarrow> int option \<Rightarrow> turno \<Rightarrow> bool option" where
  "where_disponibilidad medico fin ini t =
     sql_and (Some (medico_id t = medico))
       (sql_and (sql_in (estado t) [''pendiente'', ''confirmado''])
          (sql_or
             (sql_and (sql_lt (sql_datetime (fecha_hora t)) fin)
                      (sql_lt ini (sql_datetime_mas (fecha_hora t) (duracion t))))
             (sql_and (sql_ge (sql_datetime (fecha_hora t)) ini)
                      (sql_lt (sql_datetime (fecha_hora t)) fin))))"

text \<open>
  The handler of verificar\_disponibilidad catches every Exception and returns False:
  the ValueError of strptime, the OverflowError of the addition and the OverflowError of
  binding a medico\_id outside the 64-bit range.
\<close>

definition verificar_disponibilidad :: "db \<Rightarrow> int \<Rightarrow> string \<Rightarrow> int \<Rightarrow> bool" where
  "verificar_disponibilidad d medico fh dur =
     (case py_strptime fh of
        None \<Rightarrow> False
      | Some dt \<Rightarrow>
          (case py_sumar dt dur of
             None \<Rightarrow> False
           | Some dt_fin \<Rightarrow>
               if \<not> int64 medico then False
               else length (filter (\<lambda>t. where_disponibilidad medico (sql_param dt_fin) (sql_param dt) t
                                           = Some True) (turnos d)) = 0))"

text \<open>
  A database file: one that has the tables the statements name, or one without them, as
  crear\_tablas leaves a new file. On a file without the table turnos the SELECT of
  verificar\_disponibilidad raises sqlite3.OperationalError when it is prepared, and the
  handler returns False (the ValueError of strptime and the OverflowError of the
  addition come earlier and end in the same handler).
\<close>

datatype archivo = Sin_tablas | Con_tablas db

definition verificar_disponibilidad_archivo :: "archivo \<Rightarrow> int \<Rightarrow> string \<Rightarrow> int \<Rightarrow> bool" where
  "verificar_disponibilidad_archivo f medico fh dur =
     (case f of
        Sin_tablas \<Rightarrow> False
      | Con_tablas d \<Rightarrow> verificar_disponibilidad d medico fh dur)"

text \<open>
  The identifier of a new row of an INTEGER PRIMARY KEY AUTOINCREMENT column: one more
  than the largest identifier in use (1 for an empty table).
\<close>

definition siguiente_id :: "turno list \<Rightarrow> int" where
  "siguiente_id ts = fold max (map t_id ts) 0 + 1"

text \<open>
  The row the INSERT of crear\_turno adds: the five values it binds, and the defaults of
  the table for the columns it does not name.
\<close>

definition nuevo_turno ::
  "db \<Rightarrow> int \<Rightarrow> int \<Rightarrow> int \<Rightarrow> string \<Rightarrow> int \<Rightarrow> string option \<Rightarrow> turno" where
  "nuevo_turno d i paciente medico fh dur motivo =
     \<lparr>t_id = i, paciente_id = paciente, medico_id = medico, fecha_hora = fh, duracion = dur,
      estado = estado_defecto d, motivo_consulta = motivo,
      observaciones = observaciones_defecto d\<rparr>"

text \<open>
  crear\_turno returns the new identifier, or None after a failed availability check or
  an sqlite3.Error (here: no identifier left). A paciente\_id outside the 64-bit range
  makes the INSERT raise OverflowError, which the handler does not catch; a medico\_id
  or duracion that large never passes verificar\_disponibilidad.
\<close>

definition crear_turno ::
  "db \<Rightarrow> int \<Rightarrow> int \<Rightarrow> string \<Rightarrow> int \<Rightarrow> string option \<Rightarrow> int option outcome \<times> db" where
  "crear_turno d paciente medico fh dur motivo =
     (if \<not> verificar_disponibilidad d medico fh dur then (Returns None, d)
      else if \<not> int64 paciente then (Raises_OverflowError, d)
      else if \<not> int64 (siguiente_id (turnos d)) then (Returns None, d)
      else (Returns (Some (siguiente_id (turnos d))),
            d\<lparr>turnos := turnos d @
                 [nuevo_turno d (siguiente_id (turnos d)) paciente medico fh dur motivo]\<rparr>))"

section \<open>registrar\_paciente\<close>

text \<open>
  The INSERT of registrar\_paciente names eight columns (id\_paciente, nombre, apellido,
  dni, fecha\_nacimiento, genero, telefono, domicilio) and supplies seven values. SQLite
  refuses such a statement when it prepares it, before it binds a value or looks at a
  row: \<^verbatim>\<open>sqlite3.OperationalError: 7 values for 8 columns\<close>. The handler
  \<^verbatim>\<open>except sqlite3.Error\<close> prints the error and returns None; nothing is inserted, and
  the handler for a duplicate dni (IntegrityError) is never reached.
\<close>

definition columnas_insert_paciente :: "string list" where
  "columnas_insert_paciente =
     [''id_paciente'', ''nombre'', ''apellido'', ''dni'', ''fecha_nacimiento'', ''genero'',
      ''telefono'', ''domicilio'']"

definition valores_insert_paciente ::
  "string \<Rightarrow> string \<Rightarrow> string \<Rightarrow> string option \<Rightarrow> string option \<Rightarrow> string option
     \<Rightarrow> string option \<Rightarrow> string option list" where
  "valores_insert_paciente nombre apellido dni fecha_nacimiento telefono email direccion =
     [Some nombre, Some apellido, Some dni, fecha_nacimiento, telefono, email, direccion]"

text \<open>
  Were the counts equal, the row would be inserted unless its dni is already in the
  table (the column is UNIQUE), with the values bound to the columns in order.
\<close>

definition registrar_paciente ::
  "db \<Rightarrow> string \<Rightarrow> string \<Rightarrow> string \<Rightarrow> string option \<Rightarrow> string option \<Rightarrow> string option
     \<Rightarrow> string option \<Rightarrow> int option \<times> db" where
  "registrar_paciente d nombre apellido dni fecha_nacimiento telefono email direccion =
     (if length (valores_insert_paciente nombre apellido dni fecha_nacimiento telefono email direccion)
           \<noteq> length columnas_insert_paciente
      then (None, d)
      else if dni \<in> set (map p_dni (pacientes d)) then (None, d)
      else (Some (fold max (map p_id (pacientes d)) 0 + 1),
            d\<lparr>pacientes := pacientes d @
                 [\<lparr>p_id = fold max (map p_id (pacientes d)) 0 + 1, p_nombre = nombre,
                   p_apellido = apellido, p_dni = dni\<rparr>]\<rparr>))"

section \<open>Listings\<close>










section \<open>The properties the spec names\<close>

text \<open>
  Half-open intervals \<open>[a, b)\<close> and \<open>[c, d)\<close> overlap iff \<open>a < d\<close> and \<open>c < b\<close>.
  An appointment is active in the states pending and confirmed. Its interval starts at
  the instant its fecha\_hora denotes (as strptime reads it) and lasts duracion minutes.
\<close>

definition solapan :: "int \<Rightarrow> int \<Rightarrow> int \<Rightarrow> int \<Rightarrow> bool" where
  "solapan a b c d \<longleftrightarrow> a < d \<and> c < b"

definition activo :: "turno \<Rightarrow> bool" where
  "activo t \<longleftrightarrow> estado t = Some ''pendiente'' \<or> estado t = Some ''confirmado''"

definition ocupa :: "turno \<Rightarrow> int \<Rightarrow> int \<Rightarrow> int \<Rightarrow> bool" where
  "ocupa t medico a b \<longleftrightarrow>
     medico_id t = medico \<and> activo t \<and>
     (case py_strptime (fecha_hora t) of
        None \<Rightarrow> False
      | Some s \<Rightarrow> solapan s (s + duracion t) a b)"

text \<open>
  The availability the spec describes: no active appointment of the physician has an
  interval overlapping the proposed one, \<open>[a, a + dur)\<close>.
\<close>

definition disponible_spec :: "db \<Rightarrow> int \<Rightarrow> int \<Rightarrow> int \<Rightarrow> bool" where
  "disponible_spec d medico a dur \<longleftrightarrow> list_all (\<lambda>t. \<not> ocupa t medico a (a + dur)) (turnos d)"

text \<open>
  An appointment the availability query reads in full: SQLite reads its text and the
  text of its end, and it lasts a positive number of minutes.
\<close>

definition turno_regular :: "turno \<Rightarrow> bool" where
  "turno_regular t \<longleftrightarrow> 0 < duracion t \<and> sql_datetime_mas (fecha_hora t) (duracion t) \<noteq> None"

definition turnos_regulares :: "db \<Rightarrow> int \<Rightarrow> bool" where
  "turnos_regulares d medico \<longleftrightarrow>
     list_all (\<lambda>t. turno_regular t \<or> medico_id t \<noteq> medico \<or> \<not> activo t) (turnos d)"






section \<open>Example stores\<close>

definition turno_ej :: "int \<Rightarrow> string \<Rightarrow> int \<Rightarrow> string option \<Rightarrow> turno" where
  "turno_ej i fh dur e =
     \<lparr>t_id = i, paciente_id = 1, medico_id = 1, fecha_hora = fh, duracion = dur,
      estado = e, motivo_consulta = None, observaciones = Some ''llega tarde''\<rparr>"

definition db_vacia :: db where
  "db_vacia = \<lparr>pacientes = [], medicos = [], turnos = [],
                estado_defecto = None, observaciones_defecto = None\<rparr>"

text \<open>The empty store of a file whose table turnos declares estado DEFAULT 'pendiente'.\<close>

definition db_vacia_pendiente :: db where
  "db_vacia_pendiente = \<lparr>pacientes = [], medicos = [], turnos = [],
                estado_defecto = Some ''pendiente'', observaciones_defecto = None\<rparr>"

definition db_con :: "turno list \<Rightarrow> db" where
  "db_con ts = \<lparr>pacientes = [], medicos = [], turnos = ts,
                 estado_defecto = None, observaciones_defecto = None\<rparr>"

text \<open>
  The store after crear\_turno(1, 1, '2025-11-20 10:00', 0) and
  actualizar\_estado\_turno(1, 'confirmado') on the empty store.
\<close>

definition db_duracion_cero :: db where
  "db_duracion_cero =
     snd (actualizar_estado_turno (snd (crear_turno db_vacia 1 1 ''2025-11-20 10:00'' 0 None))
            1 ''confirmado'' None)"

definition db_un_turno :: db where
  "db_un_turno = db_con [turno_ej 1 ''2025-11-20 10:00'' 30 (Some ''pendiente'')]"












section \<open>Properties of actualizar\_estado\_turno\<close>

lemma rowcount_pos_iff: "0 < rowcount i ts \<longleftrightarrow> (\<exists>t \<in> set ts. t_id t = i)"
  by (auto simp: rowcount_def filter_empty_conv)

lemma update_turno_casos:
  "update_turno nuevo_estado obs t =
     (if obs = None \<or> obs = Some [] then t\<lparr>estado := Some nuevo_estado\<rparr>
      else t\<lparr>estado := Some nuevo_estado, observaciones := obs\<rparr>)"
  by (cases obs) (simp_all add: update_turno_def truthy_def)

text \<open>
  Claim C3, as amended. On a database that has the table turnos, the transition
  operation has no transition table and never reads the current state. When the new
  state is not one of the four recognised states it returns False and leaves the store
  unchanged. For a recognised state and an identifier outside the signed 64-bit range it
  raises OverflowError and leaves the store unchanged. Otherwise it sets the state of
  every appointment with the given identifier to the new state, whatever state it was in
  (cancelado and completado included), sets its observation when one is given and not
  empty, changes nothing else, and returns True when such an appointment exists and
  False when none does.
\<close>

theorem actualizar_estado_turno_resultado:
  "actualizar_estado_turno d turno_id nuevo_estado obs =
     (if nuevo_estado \<notin> set estados_validos then (Returns False, d)
      else if \<not> int64 turno_id then (Raises_OverflowError, d)
      else (Returns (\<exists>t \<in> set (turnos d). t_id t = turno_id),
            d\<lparr>turnos := map (\<lambda>t. if t_id t = turno_id
                                   then (if obs = None \<or> obs = Some []
                                         then t\<lparr>estado := Some nuevo_estado\<rparr>
                                         else t\<lparr>estado := Some nuevo_estado, observaciones := obs\<rparr>)
                                   else t) (turnos d)\<rparr>))"
  by (simp add: actualizar_estado_turno_def rowcount_pos_iff update_turno_casos)

text \<open>
  A store with one completed appointment: it is confirmed again, with an observation; an
  unknown state and an identifier of 64 bits and more are refused.
\<close>

theorem actualizar_estado_turno_resultado_witness:
  "actualizar_estado_turno (db_con [turno_ej 1 ''2025-11-20 10:00'' 30 (Some ''completado'')])
      1 ''confirmado'' (Some ''vino'') =
     (Returns True,
      db_con [(turno_ej 1 ''2025-11-20 10:00'' 30 (Some ''confirmado''))\<lparr>observaciones := Some ''vino''\<rparr>]) \<and>
   actualizar_estado_turno (db_con [turno_ej 1 ''2025-11-20 10:00'' 30 (Some ''completado'')])
      2 ''confirmado'' None =
     (Returns False, db_con [turno_ej 1 ''2025-11-20 10:00'' 30 (Some ''completado'')]) \<and>
   actualizar_estado_turno (db_con [turno_ej 1 ''2025-11-20 10:00'' 30 (Some ''completado'')])
      1 ''atendido'' None =
     (Returns False, db_con [turno_ej 1 ''2025-11-20 10:00'' 30 (Some ''completado'')]) \<and>
   actualizar_estado_turno (db_con [turno_ej 1 ''2025-11-20 10:00'' 30 (Some ''completado'')])
      (2 ^ 63) ''confirmado'' None =
     (Raises_OverflowError, db_con [turno_ej 1 ''2025-11-20 10:00'' 30 (Some ''completado'')])"
  using actualizar_estado_turno_resultado
      [of "db_con [turno_ej 1 ''2025-11-20 10:00'' 30 (Some ''completado'')]" 1 "''confirmado''" "Some ''vino''"]
    actualizar_estado_turno_resultado
      [of "db_con [turno_ej 1 ''2025-11-20 10:00'' 30 (Some ''completado'')]" 2 "''confirmado''" None]
    actualizar_estado_turno_resultado
      [of "db_con [turno_ej 1 ''2025-11-20 10:00'' 30 (Some ''completado'')]" 1 "''atendido''" None]
    actualizar_estado_turno_resultado
      [of "db_con [turno_ej 1 ''2025-11-20 10:00'' 30 (Some ''completado'')]" "2 ^ 63" "''confirmado''" None]
  by (simp add: estados_validos_def int64_def db_con_def turno_ej_def)

text \<open>
  Counterexample to claim C3 as stated: the appointment is completed (a terminal state of
  the spec's table), and the transition to pending returns True and overwrites the state.
\<close>

theorem actualizar_estado_turno_terminal_counterexample:
  "actualizar_estado_turno (db_con [turno_ej 1 ''2025-11-20 10:00'' 30 (Some ''completado'')])
      1 ''pendiente'' None =
   (Returns True, db_con [turno_ej 1 ''2025-11-20 10:00'' 30 (Some ''pendiente'')])"
  by (simp add: actualizar_estado_turno_def estados_validos_def int64_def rowcount_def
      db_con_def turno_ej_def update_turno_def truthy_def)

text \<open>
  Claim C10. With a recognised new state and an observation that is None or the empty
  string, the operation assigns only the column estado of the appointments with the given
  identifier: their observaciones and every other column keep their values, every other
  appointment is unchanged, and so are the tables pacientes and medicos.
\<close>

theorem actualizar_estado_turno_sin_observaciones:
  assumes "nuevo_estado \<in> set estados_validos" and "obs = None \<or> obs = Some []"
    and "int64 turno_id"
  shows "snd (actualizar_estado_turno d turno_id nuevo_estado obs) =
           d\<lparr>turnos := map (\<lambda>t. if t_id t = turno_id then t\<lparr>estado := Some nuevo_estado\<rparr> else t)
                          (turnos d)\<rparr>"
proof -
  from assms(2) have "\<not> truthy obs" by (auto simp: truthy_def)
  then have "update_turno nuevo_estado obs = (\<lambda>t. t\<lparr>estado := Some nuevo_estado\<rparr>)"
    by (simp add: update_turno_def fun_eq_iff)
  with assms(1,3) show ?thesis by (simp add: actualizar_estado_turno_def)
qed

theorem actualizar_estado_turno_sin_observaciones_witness:
  "''confirmado'' \<in> set estados_validos \<and> int64 1 \<and>
   snd (actualizar_estado_turno
          (db_con [turno_ej 1 ''2025-11-20 10:00'' 30 (Some ''pendiente''),
                   turno_ej 2 ''2025-11-20 11:00'' 30 (Some ''pendiente'')]) 1 ''confirmado'' (Some [])) =
     db_con [turno_ej 1 ''2025-11-20 10:00'' 30 (Some ''confirmado''),
             turno_ej 2 ''2025-11-20 11:00'' 30 (Some ''pendiente'')]"
proof -
  have v: "''confirmado'' \<in> set estados_validos" by (simp add: estados_validos_def)
  have i: "int64 1" by (simp add: int64_def)
  have o: "Some [] = None \<or> Some [] = Some ([] :: string)" by simp
  show ?thesis
    using v i actualizar_estado_turno_sin_observaciones [OF v o i,
        of "db_con [turno_ej 1 ''2025-11-20 10:00'' 30 (Some ''pendiente''),
                    turno_ej 2 ''2025-11-20 11:00'' 30 (Some ''pendiente'')]"]
    by (simp add: db_con_def turno_ej_def)
qed

section \<open>Properties of verificar\_disponibilidad\<close>

lemma sql_datetime_py: "sql_datetime s = Some n \<Longrightarrow> py_strptime s = Some n"
  by (auto simp: sql_datetime_def split: option.splits if_splits)

lemma sql_datetime_mas_Some:
  "sql_datetime_mas s dur \<noteq> None \<Longrightarrow>
     \<exists>n. sql_datetime s = Some n \<and> sql_datetime_mas s dur = Some (n + dur)"
  by (auto simp: sql_datetime_mas_def split: option.splits if_splits)

lemma where_inactivo:
  "\<not> (medico_id t = medico \<and> activo t) \<Longrightarrow> where_disponibilidad medico fin ini t \<noteq> Some True"
  by (cases "estado t")
     (auto simp: where_disponibilidad_def sql_and_def sql_in_def activo_def)

lemma where_regular:
  assumes "medico_id t = medico" and "activo t" and "turno_regular t"
  shows "where_disponibilidad medico (Some b) (Some a) t = Some True \<longleftrightarrow> ocupa t medico a b"
proof -
  from assms(3) have pos: "0 < duracion t"
    and "sql_datetime_mas (fecha_hora t) (duracion t) \<noteq> None"
    by (simp_all add: turno_regular_def)
  then obtain s where s: "sql_datetime (fecha_hora t) = Some s"
    and e: "sql_datetime_mas (fecha_hora t) (duracion t) = Some (s + duracion t)"
    using sql_datetime_mas_Some by blast
  from s have p: "py_strptime (fecha_hora t) = Some s" by (rule sql_datetime_py)
  from assms(2) have i: "sql_in (estado t) [''pendiente'', ''confirmado''] = Some True"
    by (auto simp: activo_def sql_in_def)
  show ?thesis
    using pos by (auto simp: where_disponibilidad_def ocupa_def assms(1,2) s e p i
        sql_and_def sql_or_def sql_lt_def sql_ge_def solapan_def)
qed

lemma where_iff_ocupa:
  assumes "turno_regular t \<or> medico_id t \<noteq> medico \<or> \<not> activo t"
  shows "where_disponibilidad medico (Some b) (Some a) t = Some True \<longleftrightarrow> ocupa t medico a b"
proof (cases "medico_id t = medico \<and> activo t")
  case True
  with assms show ?thesis by (simp add: where_regular)
next
  case False
  then have "where_disponibilidad medico (Some b) (Some a) t \<noteq> Some True"
    by (rule where_inactivo)
  moreover from False have "\<not> ocupa t medico a b" by (auto simp: ocupa_def)
  ultimately show ?thesis by simp
qed

lemma filter_vacio_iff: "length (filter P xs) = 0 \<longleftrightarrow> list_all (\<lambda>x. \<not> P x) xs"
  by (induction xs) auto

lemma verificar_sii_libre_tablas:
  assumes "int64 medico" and "py_strptime fh = Some a"
    and "minuto_1000 \<le> a" and "minuto_1000 \<le> a + dur" and "a + dur \<le> minuto_max"
    and "turnos_regulares d medico"
  shows "verificar_disponibilidad d medico fh dur = disponible_spec d medico a dur"
proof -
  from assms(4) have "0 \<le> a + dur" by (simp add: minuto_1000_def)
  with assms(5) have su: "py_sumar a dur = Some (a + dur)" by (simp add: py_sumar_def)
  have pa: "sql_param a = Some a" and pb: "sql_param (a + dur) = Some (a + dur)"
    using assms(3,4) by (simp_all add: sql_param_def)
  have "list_all (\<lambda>t. \<not> where_disponibilidad medico (Some (a + dur)) (Some a) t = Some True) (turnos d)
        = list_all (\<lambda>t. \<not> ocupa t medico a (a + dur)) (turnos d)"
    using assms(6) unfolding turnos_regulares_def
    by (induction "turnos d" arbitrary: d) (auto simp: list_all_iff where_iff_ocupa)
  then show ?thesis
    by (simp add: verificar_disponibilidad_def assms(1,2) su pa pb filter_vacio_iff
        disponible_spec_def del: length_0_conv)
qed

lemma verificar_fecha_invalida:
  assumes "\<forall>a. py_strptime fh = Some a \<longrightarrow> py_sumar a dur = None"
  shows "\<not> verificar_disponibilidad d medico fh dur"
  using assms by (auto simp: verificar_disponibilidad_def split: option.splits)

text \<open>
  Claim C1, as amended. On a database file that has the tables the statements name: let
  every pending or confirmed appointment stored for the physician have a zero-padded
  timestamp text (one SQLite reads), a positive duration and an end no later than
  9999-12-31 23:59; let the proposed start parse under \<^verbatim>\<open>'%Y-%m-%d %H:%M'\<close>, with start
  and end between the years 1000 and 9999, and let the physician's identifier fit in 64
  bits. Then verificar\_disponibilidad returns True if and only if no pending or
  confirmed appointment of that physician has an interval overlapping the proposed
  \<open>[start, start + duration)\<close> under half-open semantics; so an appointment ending exactly
  at the proposed start does not conflict. On every file, a start text that does not
  parse or an end outside the years 1 to 9999 makes it return False; and on a file
  without the tables (as crear\_tablas leaves a new one) it always returns False.
\<close>

theorem verificar_disponibilidad_sii_libre:
  "(int64 medico \<and> py_strptime fh = Some a \<and> minuto_1000 \<le> a \<and> minuto_1000 \<le> a + dur \<and>
    a + dur \<le> minuto_max \<and> turnos_regulares d medico \<longrightarrow>
      verificar_disponibilidad_archivo (Con_tablas d) medico fh dur = disponible_spec d medico a dur) \<and>
   ((\<forall>b. py_strptime fh = Some b \<longrightarrow> py_sumar b dur = None) \<longrightarrow>
      \<not> verificar_disponibilidad_archivo f medico fh dur) \<and>
   \<not> verificar_disponibilidad_archivo Sin_tablas medico fh dur"
proof (intro conjI impI)
  assume "int64 medico \<and> py_strptime fh = Some a \<and> minuto_1000 \<le> a \<and> minuto_1000 \<le> a + dur \<and>
    a + dur \<le> minuto_max \<and> turnos_regulares d medico"
  then have "verificar_disponibilidad d medico fh dur = disponible_spec d medico a dur"
    by (intro verificar_sii_libre_tablas) simp_all
  then show "verificar_disponibilidad_archivo (Con_tablas d) medico fh dur
               = disponible_spec d medico a dur"
    by (simp add: verificar_disponibilidad_archivo_def)
next
  assume "\<forall>b. py_strptime fh = Some b \<longrightarrow> py_sumar b dur = None"
  then have "\<not> verificar_disponibilidad d' medico fh dur" for d'
    by (rule verificar_fecha_invalida)
  then show "\<not> verificar_disponibilidad_archivo f medico fh dur"
    by (cases f) (simp_all add: verificar_disponibilidad_archivo_def)
next
  show "\<not> verificar_disponibilidad_archivo Sin_tablas medico fh dur"
    by (simp add: verificar_disponibilidad_archivo_def)
qed

text \<open>
  The example of the spec: the physician has the appointment \<open>[10:00, 10:30)\<close>; the
  check accepts a start at 10:30 and refuses one at 10:29. A date written day first is
  refused as well.
\<close>

theorem verificar_disponibilidad_sii_libre_witness:
  "int64 1 \<and> py_strptime ''2025-11-20 10:30'' = Some 1064987190 \<and>
   py_strptime ''2025-11-20 10:29'' = Some 1064987189 \<and>
   turnos_regulares db_un_turno 1 \<and>
   verificar_disponibilidad_archivo (Con_tablas db_un_turno) 1 ''2025-11-20 10:30'' 30 \<and>
   disponible_spec db_un_turno 1 1064987190 30 \<and>
   \<not> verificar_disponibilidad_archivo (Con_tablas db_un_turno) 1 ''2025-11-20 10:29'' 30 \<and>
   \<not> disponible_spec db_un_turno 1 1064987189 30 \<and>
   py_strptime ''20/11/2025 10:00'' = None \<and>
   \<not> verificar_disponibilidad_archivo (Con_tablas db_un_turno) 1 ''20/11/2025 10:00'' 30"
proof -
  have i: "int64 1" by (simp add: int64_def)
  have p: "py_strptime ''2025-11-20 10:30'' = Some 1064987190" by code_simp
  have q: "py_strptime ''2025-11-20 10:29'' = Some 1064987189" by code_simp
  have u: "py_strptime ''20/11/2025 10:00'' = None" by code_simp
  have r: "turnos_regulares db_un_turno 1" by code_simp
  have s: "disponible_spec db_un_turno 1 1064987190 30" by code_simp
  have n: "\<not> disponible_spec db_un_turno 1 1064987189 30" by code_simp
  have a: "verificar_disponibilidad_archivo (Con_tablas db_un_turno) 1 ''2025-11-20 10:30'' 30
          = disponible_spec db_un_turno 1 1064987190 30"
    using verificar_disponibilidad_sii_libre
      [where medico = 1 and fh = "''2025-11-20 10:30''" and a = 1064987190 and dur = 30
         and d = db_un_turno] i p r
    by (simp add: minuto_1000_def minuto_max_def)
  have b: "verificar_disponibilidad_archivo (Con_tablas db_un_turno) 1 ''2025-11-20 10:29'' 30
          = disponible_spec db_un_turno 1 1064987189 30"
    using verificar_disponibilidad_sii_libre
      [where medico = 1 and fh = "''2025-11-20 10:29''" and a = 1064987189 and dur = 30
         and d = db_un_turno] i q r
    by (simp add: minuto_1000_def minuto_max_def)
  have c: "\<not> verificar_disponibilidad_archivo (Con_tablas db_un_turno) 1 ''20/11/2025 10:00'' 30"
    using verificar_disponibilidad_sii_libre
      [where medico = 1 and fh = "''20/11/2025 10:00''" and dur = 30
         and f = "Con_tablas db_un_turno"] u
    by simp
  from a b c i p q u r s n show ?thesis by simp
qed

text \<open>
  Counterexample to claim C1 as stated. On the empty store, crear\_turno accepts an
  appointment of duration 0 at 10:00 and actualizar\_estado\_turno confirms it. No interval
  overlaps \<open>[10:00, 10:30)\<close> under the half-open rule (the stored interval is
  \<open>[10:00, 10:00)\<close>), yet the check returns False: the second disjunct of the query
  counts every appointment that starts in the proposed interval.
\<close>

theorem verificar_disponibilidad_duracion_cero_counterexample:
  "fst (crear_turno db_vacia 1 1 ''2025-11-20 10:00'' 0 None) = Returns (Some 1) \<and>
   \<not> verificar_disponibilidad_archivo (Con_tablas db_duracion_cero) 1 ''2025-11-20 10:00'' 30 \<and>
   py_strptime ''2025-11-20 10:00'' = Some 1064987160 \<and>
   disponible_spec db_duracion_cero 1 1064987160 30"
  by code_simp

section \<open>Properties of crear\_turno\<close>

lemma fold_max_ge: "(a::int) \<le> fold max xs a"
  by (induction xs arbitrary: a) (auto intro: order_trans [OF max.cobounded2])

lemma fold_max_mem: "x \<in> set xs \<Longrightarrow> (x::int) \<le> fold max xs a"
proof (induction xs arbitrary: a)
  case Nil
  then show ?case by simp
next
  case (Cons y ys)
  show ?case
  proof (cases "x = y")
    case True
    have "y \<le> max y a" by simp
    also have "\<dots> \<le> fold max ys (max y a)" by (rule fold_max_ge)
    finally show ?thesis using True by simp
  next
    case False
    with Cons.prems have "x \<in> set ys" by simp
    then show ?thesis by (simp add: Cons.IH)
  qed
qed

lemma siguiente_id_nuevo: "u \<in> set ts \<Longrightarrow> t_id u \<noteq> siguiente_id ts"
proof
  assume u: "u \<in> set ts" and e: "t_id u = siguiente_id ts"
  from u have "t_id u \<in> set (map t_id ts)" by simp
  then have "t_id u \<le> fold max (map t_id ts) 0" by (rule fold_max_mem)
  with e show False by (simp add: siguiente_id_def)
qed

text \<open>
  Claim C4, as amended. crear\_turno checks neither that the patient or the physician
  exists nor that the duration is positive. When the start text does not parse under
  \<^verbatim>\<open>'%Y-%m-%d %H:%M'\<close>, or the start plus the duration leaves the years 1 to 9999, the
  call fails (returns None) and the store is unchanged.
\<close>

theorem crear_turno_fecha_invalida:
  assumes "\<forall>a. py_strptime fh = Some a \<longrightarrow> py_sumar a dur = None"
  shows "crear_turno d paciente medico fh dur motivo = (Returns None, d)"
proof -
  from assms have "\<not> verificar_disponibilidad d medico fh dur"
    by (auto simp: verificar_disponibilidad_def split: option.splits)
  then show ?thesis by (simp add: crear_turno_def)
qed

theorem crear_turno_fecha_invalida_witness:
  "py_strptime ''20/11/2025 10:00'' = None \<and>
   crear_turno db_un_turno 1 1 ''20/11/2025 10:00'' 30 None = (Returns None, db_un_turno)"
proof -
  have p: "py_strptime ''20/11/2025 10:00'' = None" by code_simp
  then have "\<forall>a. py_strptime ''20/11/2025 10:00'' = Some a \<longrightarrow> py_sumar a 30 = None" by simp
  from crear_turno_fecha_invalida [OF this] p show ?thesis by simp
qed

text \<open>
  Counterexample to claim C4 as stated: on the empty store, which has neither patient 7
  nor physician 9, a call with the duration -30 returns the identifier 1 and inserts
  the appointment.
\<close>

theorem crear_turno_sin_validacion_counterexample:
  "pacientes db_vacia = [] \<and> medicos db_vacia = [] \<and>
   fst (crear_turno db_vacia 7 9 ''2025-11-20 10:00'' (- 30) None) = Returns (Some 1) \<and>
   map t_id (turnos (snd (crear_turno db_vacia 7 9 ''2025-11-20 10:00'' (- 30) None))) = [1] \<and>
   map duracion (turnos (snd (crear_turno db_vacia 7 9 ''2025-11-20 10:00'' (- 30) None))) = [- 30]"
  by code_simp

text \<open>
  Claim C5, as amended. When the availability check reports the physician unavailable,
  crear\_turno returns None, the value it returns for every failure (the code has no
  error kinds), and inserts no appointment: the store after the call is the store before
  it.
\<close>

theorem crear_turno_no_disponible:
  assumes "\<not> verificar_disponibilidad d medico fh dur"
  shows "crear_turno d paciente medico fh dur motivo = (Returns None, d)"
  using assms by (simp add: crear_turno_def)

theorem crear_turno_no_disponible_witness:
  "\<not> verificar_disponibilidad db_un_turno 1 ''2025-11-20 10:29'' 30 \<and>
   crear_turno db_un_turno 2 1 ''2025-11-20 10:29'' 30 None = (Returns None, db_un_turno)"
proof -
  have n: "\<not> verificar_disponibilidad db_un_turno 1 ''2025-11-20 10:29'' 30" by code_simp
  from crear_turno_no_disponible [OF n] n show ?thesis by simp
qed

text \<open>
  Counterexample to claim C5 as stated. The store holds the appointment
  \<open>[10:00, 10:30)\<close> of physician 1. A call for 10:29 meets a scheduling conflict and a
  call with a date written day first has an argument that does not parse; both return
  the same value, None. The result carries no error kind, so a caller cannot tell a
  ConflictError from another failure.
\<close>

theorem crear_turno_no_disponible_counterexample:
  "py_strptime ''2025-11-20 10:29'' = Some 1064987189 \<and>
   \<not> disponible_spec db_un_turno 1 1064987189 30 \<and>
   fst (crear_turno db_un_turno 2 1 ''2025-11-20 10:29'' 30 None) = Returns None \<and>
   py_strptime ''20/11/2025 10:00'' = None \<and>
   fst (crear_turno db_un_turno 2 1 ''20/11/2025 10:00'' 30 None) = Returns None"
  by code_simp

text \<open>
  Claim C8, as amended. A successful call of crear\_turno appends exactly one appointment
  to the table turnos and changes nothing else. The new appointment carries the
  arguments of the call; its state and its observation are the defaults that the table
  declares for these columns, because the INSERT names neither: the appointment is
  pending only on a database whose table declares that default. Its identifier is the
  value returned, which no appointment had before.
\<close>

theorem crear_turno_exito:
  assumes "fst (crear_turno d paciente medico fh dur motivo) = Returns (Some i)"
  shows "snd (crear_turno d paciente medico fh dur motivo) =
           d\<lparr>turnos := turnos d @
                [\<lparr>t_id = i, paciente_id = paciente, medico_id = medico, fecha_hora = fh,
                  duracion = dur, estado = estado_defecto d, motivo_consulta = motivo,
                  observaciones = observaciones_defecto d\<rparr>]\<rparr> \<and>
         i \<notin> set (map t_id (turnos d))"
proof -
  from assms have i: "i = siguiente_id (turnos d)"
    and s: "snd (crear_turno d paciente medico fh dur motivo) =
           d\<lparr>turnos := turnos d @ [nuevo_turno d i paciente medico fh dur motivo]\<rparr>"
    by (auto simp: crear_turno_def split: if_splits)
  have "i \<notin> set (map t_id (turnos d))"
  proof
    assume "i \<in> set (map t_id (turnos d))"
    then obtain u where u: "u \<in> set (turnos d)" and "t_id u = i" by auto
    with i have "t_id u = siguiente_id (turnos d)" by simp
    with siguiente_id_nuevo [OF u] show False by simp
  qed
  with s show ?thesis by (simp add: nuevo_turno_def)
qed

text \<open>On the empty store of a database whose table declares estado DEFAULT 'pendiente'.\<close>

theorem crear_turno_exito_witness:
  "fst (crear_turno db_vacia_pendiente 5 1 ''2025-11-20 10:30'' 30 (Some ''control'')) = Returns (Some 1) \<and>
   snd (crear_turno db_vacia_pendiente 5 1 ''2025-11-20 10:30'' 30 (Some ''control'')) =
     db_vacia_pendiente\<lparr>turnos :=
        [\<lparr>t_id = 1, paciente_id = 5, medico_id = 1, fecha_hora = ''2025-11-20 10:30'',
          duracion = 30, estado = Some ''pendiente'', motivo_consulta = Some ''control'',
          observaciones = None\<rparr>]\<rparr>"
proof -
  have f: "fst (crear_turno db_vacia_pendiente 5 1 ''2025-11-20 10:30'' 30 (Some ''control'')) = Returns (Some 1)"
    by code_simp
  from crear_turno_exito [OF f] f show ?thesis by (simp add: db_vacia_pendiente_def)
qed

text \<open>
  Counterexample to claim C8 as stated: on the empty store of a database whose table
  turnos declares no default for estado, the call succeeds and the state of the new
  appointment is NULL, not pending.
\<close>

theorem crear_turno_estado_counterexample:
  "estado_defecto db_vacia = None \<and>
   fst (crear_turno db_vacia 1 1 ''2025-11-20 10:00'' 30 None) = Returns (Some 1) \<and>
   map estado (turnos (snd (crear_turno db_vacia 1 1 ''2025-11-20 10:00'' 30 None))) = [None]"
  by code_simp


section \<open>Properties of registrar\_paciente\<close>

text \<open>
  Claim C7 on the code: every call of registrar\_paciente returns None and leaves the
  store unchanged, the first registration of a dni as well as a repeated one.
\<close>

theorem registrar_paciente_siempre_falla:
  "registrar_paciente d nombre apellido dni fecha_nacimiento telefono email direccion = (None, d)"
  by (simp add: registrar_paciente_def valores_insert_paciente_def columnas_insert_paciente_def)

section \<open>Properties of the listings\<close>










section \<open>The overlap invariant\<close>









end
